theory Spec2Isabelle
  imports Complex_Main "HOL-Library.Multiset"
begin

section \<open>Python values used by \<open>src/llm_analyzer.py\<close>\<close>

text \<open>
  A Python \<open>str\<close> is a sequence of Unicode code points; it is modelled as a list of
  natural numbers, so that \<open>len\<close>, \<open>in\<close> and \<open>split\<close> count code points as Python does
  (the analyzer's built-in key elements and report headings contain Cyrillic text).
  \<open>ascii\<close> turns an Isabelle string literal into such a list.
\<close>

type_synonym pystr = "nat list"

definition ascii :: "string \<Rightarrow> pystr" where
  "ascii s = map of_char s"

text \<open>
  Python numbers: \<open>int\<close> is unbounded, \<open>float\<close> is idealised as an exact real number
  (rounding to the nearest IEEE double after each operation, infinities and NaN are
  outside the model). Mixed arithmetic promotes to \<open>float\<close> as Python does.
\<close>

datatype pynum = PInt int | PFloat real

fun num_val :: "pynum \<Rightarrow> real" where
  "num_val (PInt i) = of_int i"
| "num_val (PFloat x) = x"

fun py_mul :: "pynum \<Rightarrow> pynum \<Rightarrow> pynum" where
  "py_mul (PInt a) (PInt b) = PInt (a * b)"
| "py_mul a b = PFloat (num_val a * num_val b)"

fun py_add :: "pynum \<Rightarrow> pynum \<Rightarrow> pynum" where
  "py_add (PInt a) (PInt b) = PInt (a + b)"
| "py_add a b = PFloat (num_val a + num_val b)"

text \<open>Python's \<open>==\<close> on numbers compares the numeric values (\<open>14 == 14.0\<close>).\<close>

definition py_eq :: "pynum \<Rightarrow> pynum \<Rightarrow> bool" where
  "py_eq a b = (num_val a = num_val b)"

datatype error = ZeroDivisionError | KeyError pystr

text \<open>
  True division \<open>a / b\<close> of two ints: raises on a zero divisor, else a float. (The
  \<open>OverflowError\<close> of a quotient beyond the range of a double belongs to the float
  format and is outside the model.)
\<close>

definition py_truediv :: "int \<Rightarrow> int \<Rightarrow> error + pynum" where
  "py_truediv a b =
     (if b = 0 then Inl ZeroDivisionError else Inr (PFloat (of_int a / of_int b)))"

text \<open>
  \<open>round(x, 2)\<close>: an int is returned unchanged; a float is rounded to two decimals,
  ties to even.
\<close>

definition round_half_even :: "real \<Rightarrow> int" where
  "round_half_even x =
     (let f = \<lfloor>x\<rfloor>; d = x - of_int f
      in if d < 1 / 2 then f else if 1 / 2 < d then f + 1
         else if even f then f else f + 1)"

fun py_round2 :: "pynum \<Rightarrow> pynum" where
  "py_round2 (PInt i) = PInt i"
| "py_round2 (PFloat x) = PFloat (of_int (round_half_even (x * 100)) / 100)"

subsection \<open>String operations\<close>

text \<open>\<open>s.startswith(p)\<close> and \<open>needle in s\<close> (a contiguous occurrence).\<close>

fun startswith :: "pystr \<Rightarrow> pystr \<Rightarrow> bool" where
  "startswith s [] = True"
| "startswith [] (p # ps) = False"
| "startswith (c # cs) (p # ps) = (c = p \<and> startswith cs ps)"

fun str_contains :: "pystr \<Rightarrow> pystr \<Rightarrow> bool" where
  "str_contains [] needle = (needle = [])"
| "str_contains (c # cs) needle = (startswith (c # cs) needle \<or> str_contains cs needle)"

text \<open>\<open>s.split(sep)\<close> for a one-character separator: always at least one piece.\<close>

fun split_sep :: "nat \<Rightarrow> pystr \<Rightarrow> pystr list" where
  "split_sep sep [] = [[]]"
| "split_sep sep (c # cs) =
     (let r = split_sep sep cs
      in if c = sep then [] # r else (c # hd r) # tl r)"

text \<open>
  \<open>s.split()\<close>: the maximal runs of non-whitespace characters. \<open>isspace\<close> lists the
  code points for which Python's \<open>str.isspace\<close> holds.
\<close>

definition isspace :: "nat \<Rightarrow> bool" where
  "isspace c = (c \<in> set [9, 10, 11, 12, 13, 28, 29, 30, 31, 32, 133, 160, 5760,
       8192, 8193, 8194, 8195, 8196, 8197, 8198, 8199, 8200, 8201, 8202,
       8232, 8233, 8239, 8287, 12288])"

fun split_acc :: "pystr \<Rightarrow> pystr \<Rightarrow> pystr list" where
  "split_acc cur [] = (if cur = [] then [] else [cur])"
| "split_acc cur (c # cs) =
     (if isspace c then (if cur = [] then split_acc [] cs else cur # split_acc [] cs)
      else split_acc (cur @ [c]) cs)"

definition split_ws :: "pystr \<Rightarrow> pystr list" where
  "split_ws s = split_acc [] s"

section \<open>The scoring functions of \<open>LLMAnalyzer\<close>\<close>

text \<open>
  \<open>str.lower\<close> is the Unicode lower-casing of the Python runtime; the scoring functions
  take it as the parameter \<open>lower\<close>, so every result below holds for whatever mapping the
  runtime implements. \<open>ascii_lower\<close> is the instance used on concrete inputs: it maps
  the Latin capitals A-Z and the Cyrillic capitals U+0410-U+042F to their small letters.
\<close>

definition lower_cp :: "nat \<Rightarrow> nat" where
  "lower_cp c = (if (65 \<le> c \<and> c \<le> 90) \<or> (1040 \<le> c \<and> c \<le> 1071) then c + 32 else c)"

definition ascii_lower :: "pystr \<Rightarrow> pystr" where
  "ascii_lower s = map lower_cp s"

text \<open>
  \<open>calculate_faithfulness\<close> and \<open>calculate_coverage\<close>: count the list elements whose
  lower-cased form occurs in the lower-cased summary; the division is guarded by the
  emptiness test of the list.
\<close>

definition calculate_faithfulness ::
  "(pystr \<Rightarrow> pystr) \<Rightarrow> pystr \<Rightarrow> pystr list \<Rightarrow> error + pynum" where
  "calculate_faithfulness lower summary source_facts =
     (let found_facts = sum_list (map (\<lambda>fact. (1::int))
            (filter (\<lambda>fact. str_contains (lower summary) (lower fact)) source_facts))
      in if source_facts \<noteq> []
         then (case py_truediv found_facts (int (length source_facts)) of
                 Inl e \<Rightarrow> Inl e
               | Inr q \<Rightarrow> Inr (py_mul q (PInt 100)))
         else Inr (PInt 0))"

definition calculate_coverage ::
  "(pystr \<Rightarrow> pystr) \<Rightarrow> pystr \<Rightarrow> pystr list \<Rightarrow> error + pynum" where
  "calculate_coverage lower summary key_elements =
     (let covered = sum_list (map (\<lambda>element. (1::int))
            (filter (\<lambda>element. str_contains (lower summary) (lower element)) key_elements))
      in if key_elements \<noteq> []
         then (case py_truediv covered (int (length key_elements)) of
                 Inl e \<Rightarrow> Inl e
               | Inr q \<Rightarrow> Inr (py_mul q (PInt 100)))
         else Inr (PInt 0))"

text \<open>
  \<open>calculate_prompt_adherence\<close>: word-count score, structure score and the fixed style
  score. \<open>min_words\<close> and \<open>max_words\<close> default to 100 and 150.
\<close>

definition calculate_prompt_adherence :: "pystr \<Rightarrow> int \<Rightarrow> int \<Rightarrow> int \<Rightarrow> int" where
  "calculate_prompt_adherence summary word_count min_words max_words =
     (let word_score = (if min_words \<le> word_count \<and> word_count \<le> max_words then 40 else 0);
          structure_score =
            (if list_all (\<lambda>marker. str_contains summary marker)
                  [ascii ''1.'', ascii ''2.'', ascii ''3.'']
             then 30 else 15);
          style_score = 30
      in word_score + structure_score + style_score)"

definition calculate_prompt_adherence_default :: "pystr \<Rightarrow> int \<Rightarrow> int" where
  "calculate_prompt_adherence_default summary word_count =
     calculate_prompt_adherence summary word_count 100 150"

text \<open>\<open>calculate_compression_ratio\<close>: the division happens only for a positive divisor.\<close>

definition calculate_compression_ratio :: "int \<Rightarrow> int \<Rightarrow> error + pynum" where
  "calculate_compression_ratio source_words summary_words =
     (if summary_words > 0 then py_truediv source_words summary_words else Inr (PInt 0))"

definition calculate_coherence :: "pystr \<Rightarrow> int" where
  "calculate_coherence summary =
     (let sentences = split_sep 46 summary
      in if length sentences > 2 then 80 else 60)"

section \<open>\<open>analyze_model\<close>\<close>

text \<open>
  A Python \<open>dict\<close> keeps its keys in insertion order, and the report iterates over
  \<open>metrics.items()\<close>; it is modelled as an association list. \<open>d[k]\<close> raises
  \<open>KeyError\<close> on a missing key.
\<close>

type_synonym pydict = "(pystr \<times> pynum) list"

fun dict_getitem :: "pydict \<Rightarrow> pystr \<Rightarrow> error + pynum" where
  "dict_getitem [] k = Inl (KeyError k)"
| "dict_getitem ((k', v) # d) k = (if k' = k then Inr v else dict_getitem d k)"

record LLMAnalyzer =
  metrics_weights :: pydict

text \<open>\<open>LLMAnalyzer.__init__\<close>.\<close>

definition init :: LLMAnalyzer where
  "init = \<lparr>metrics_weights =
     [(ascii ''faithfulness'', PFloat (30 / 100)),
      (ascii ''coverage'', PFloat (25 / 100)),
      (ascii ''prompt_adherence'', PFloat (20 / 100)),
      (ascii ''coherence'', PFloat (15 / 100)),
      (ascii ''compression'', PFloat (10 / 100))]\<rparr>"

text \<open>The dictionary returned by \<open>analyze_model\<close>.\<close>

record ScoreRecord =
  model :: pystr
  word_count :: int
  metrics :: pydict
  total_score :: pynum

text \<open>
  The local list \<open>key_elements\<close> of \<open>analyze_model\<close>:
  "1,75 trln $" and "1M tokenov" are written in Cyrillic in the source.
\<close>

definition key_elements :: "pystr list" where
  "key_elements =
     [ascii ''1,75 '' @ [1090, 1088, 1083, 1085] @ ascii '' $'',
      ascii ''36%'', ascii ''40%'', ascii ''o3-mini'', ascii ''DeepSeek R1'',
      ascii ''Qwen 2.5 Max'', ascii ''Grok'', ascii ''YandexGPT'', ascii ''GigaChat'',
      ascii ''Cotype'', ascii ''Humanities Last Exam'', ascii ''13%'', ascii ''128K'',
      ascii ''1M '' @ [1090, 1086, 1082, 1077, 1085, 1086, 1074]]"

text \<open>
  \<open>sum(metrics[metric] * self.metrics_weights[metric] for metric in metrics)\<close>:
  \<open>sum\<close> starts from the int 0 and adds the products from left to right, in the key
  order of \<open>metrics\<close>.
\<close>

fun weighted_sum :: "pydict \<Rightarrow> pydict \<Rightarrow> pystr list \<Rightarrow> pynum \<Rightarrow> error + pynum" where
  "weighted_sum ms ws [] acc = Inr acc"
| "weighted_sum ms ws (metric # rest) acc =
     (case dict_getitem ms metric of
        Inl e \<Rightarrow> Inl e
      | Inr m \<Rightarrow>
          (case dict_getitem ws metric of
             Inl e \<Rightarrow> Inl e
           | Inr w \<Rightarrow> weighted_sum ms ws rest (py_add acc (py_mul m w))))"

text \<open>\<open>source_stats\<close> maps names to integers; \<open>.get(key, default)\<close> never raises.\<close>

definition dict_get :: "(pystr \<rightharpoonup> int) \<Rightarrow> pystr \<Rightarrow> int \<Rightarrow> int" where
  "dict_get d k dflt = (case d k of None \<Rightarrow> dflt | Some v \<Rightarrow> v)"

definition analyze_model ::
  "(pystr \<Rightarrow> pystr) \<Rightarrow> LLMAnalyzer \<Rightarrow> pystr \<Rightarrow> pystr \<Rightarrow> (pystr \<rightharpoonup> int)
     \<Rightarrow> error + ScoreRecord" where
  "analyze_model lower self model_name summary source_stats =
     (let wc = int (length (split_ws summary)) in
      case calculate_coverage lower summary key_elements of
        Inl e \<Rightarrow> Inl e
      | Inr coverage \<Rightarrow>
     (let prompt_adherence = calculate_prompt_adherence_default summary wc;
          coherence = calculate_coherence summary in
      case calculate_compression_ratio
             (dict_get source_stats (ascii ''word_count'') 4200) wc of
        Inl e \<Rightarrow> Inl e
      | Inr compression \<Rightarrow>
     (let ms = [(ascii ''faithfulness'', PInt 100),
                (ascii ''coverage'', coverage),
                (ascii ''prompt_adherence'', PInt prompt_adherence),
                (ascii ''coherence'', PInt coherence),
                (ascii ''compression'', compression)] in
      case weighted_sum ms (metrics_weights self) (map fst ms) (PInt 0) of
        Inl e \<Rightarrow> Inl e
      | Inr total_score_raw \<Rightarrow>
          Inr \<lparr>model = model_name, word_count = wc, metrics = ms,
               total_score = py_round2 total_score_raw\<rparr>)))"

section \<open>\<open>generate_comparison_report\<close>\<close>

text \<open>Decimal digits of a natural number and \<open>str\<close> of an int.\<close>

fun str_nat :: "nat \<Rightarrow> pystr" where
  "str_nat n = (if n < 10 then [48 + n] else str_nat (n div 10) @ [48 + n mod 10])"

declare str_nat.simps [simp del]

definition str_int :: "int \<Rightarrow> pystr" where
  "str_int i = (if i < 0 then 45 # str_nat (nat (- i)) else str_nat (nat i))"

text \<open>
  \<open>str\<close> of a float is the shortest decimal that reads back as the same IEEE double, a
  property of the double format; the report takes it as the parameter \<open>float_repr\<close>.
  \<open>repr_2dp\<close> is the instance used on concrete inputs: it is \<open>str\<close> for the values
  \<open>round(x, 2)\<close> returns (at most two decimals, magnitude below \<open>1e16\<close>).
\<close>

definition py_str :: "(real \<Rightarrow> pystr) \<Rightarrow> pynum \<Rightarrow> pystr" where
  "py_str float_repr v = (case v of PInt i \<Rightarrow> str_int i | PFloat x \<Rightarrow> float_repr x)"

definition repr_2dp :: "real \<Rightarrow> pystr" where
  "repr_2dp x =
     (let n = nat (round_half_even (\<bar>x\<bar> * 100)); frac = n mod 100
      in (if x < 0 then [45] else []) @ str_nat (n div 100) @ [46] @
         (if frac mod 10 = 0 then str_nat (frac div 10)
          else str_nat (frac div 10) @ str_nat (frac mod 10)))"

text \<open>The format specification \<open>.1f\<close>: one decimal, ties of the exact value to even.\<close>

definition format_1f :: "pynum \<Rightarrow> pystr" where
  "format_1f v =
     (let x = num_val v; n = nat (round_half_even (\<bar>x\<bar> * 10))
      in (if x < 0 then [45] else []) @ str_nat (n div 10) @ [46] @ str_nat (n mod 10))"

text \<open>
  \<open>datetime.now()\<close> reads the clock; the reading is the parameter \<open>now\<close>.
  \<open>strftime('%d.%m.%Y')\<close> prints day and month in two digits and the year in four
  (the years 1000 to 9999 that a clock reads need no padding).
\<close>

record date =
  day :: nat
  month :: nat
  year :: nat

definition pad2 :: "nat \<Rightarrow> pystr" where
  "pad2 n = (if n < 10 then 48 # str_nat n else str_nat n)"

definition pad4 :: "nat \<Rightarrow> pystr" where
  "pad4 n = replicate (4 - length (str_nat n)) 48 @ str_nat n"

definition strftime_dmY :: "date \<Rightarrow> pystr" where
  "strftime_dmY d = pad2 (day d) @ [46] @ pad2 (month d) @ [46] @ pad4 (year d)"

text \<open>\<open>"\n".join(report)\<close>.\<close>

fun join_nl :: "pystr list \<Rightarrow> pystr" where
  "join_nl [] = []"
| "join_nl [l] = l"
| "join_nl (l # ls) = l @ [10] @ join_nl ls"

text \<open>
  \<open>analyses.sort(key=lambda x: x['total_score'], reverse=True)\<close>: the built-in sort is
  stable, also with \<open>reverse=True\<close>; it is modelled by the stable insertion sort of the
  library on the negated key. It sorts the caller's list object in place.
\<close>

definition list_sort_reverse :: "('a \<Rightarrow> real) \<Rightarrow> 'a list \<Rightarrow> 'a list" where
  "list_sort_reverse key xs = sort_key (\<lambda>x. - key x) xs"

text \<open>The lines appended by the two loops, per record.\<close>

definition table_row :: "(real \<Rightarrow> pystr) \<Rightarrow> ScoreRecord \<Rightarrow> pystr" where
  "table_row float_repr analysis =
     ascii ''| '' @ model analysis @ ascii '' | '' @
     py_str float_repr (total_score analysis) @ ascii '' | '' @
     str_int (word_count analysis) @ ascii '' |''"

definition metric_line :: "pystr \<times> pynum \<Rightarrow> pystr" where
  "metric_line item =
     (case item of (metric, v) \<Rightarrow>
        ascii ''- **'' @ metric @ ascii ''**: '' @ format_1f v)"

definition title_line :: pystr where
  "title_line = [35, 32, 1057, 1088, 1072, 1074, 1085, 1080, 1090, 1077, 1083, 1100, 1085,
     1099, 1081, 32, 1072, 1085, 1072, 1083, 1080, 1079, 32, 76, 76, 77, 32, 1084, 1086,
     1076, 1077, 1083, 1077, 1081, 10]"

definition date_line :: "date \<Rightarrow> pystr" where
  "date_line now = [1044, 1072, 1090, 1072, 58, 32] @ strftime_dmY now @ [10]"

definition results_heading :: pystr where
  "results_heading = [35, 35, 32, 1048, 1090, 1086, 1075, 1086, 1074, 1099, 1077, 32, 1088,
     1077, 1079, 1091, 1083, 1100, 1090, 1072, 1090, 1099, 10]"

definition table_head :: pystr where
  "table_head = [124, 32, 1052, 1086, 1076, 1077, 1083, 1100, 32, 124, 32, 1054, 1073, 1097,
     1080, 1081, 32, 1073, 1072, 1083, 1083, 32, 124, 32, 1057, 1083, 1086, 1074, 32, 124]"

definition table_rule :: pystr where
  "table_rule = ascii ''|--------|------------|------|''"

definition details_heading :: pystr where
  "details_heading = [10, 35, 35, 32, 1044, 1077, 1090, 1072, 1083, 1100, 1085, 1099, 1077,
     32, 1084, 1077, 1090, 1088, 1080, 1082, 1080, 10]"

text \<open>
  The method returns the report and leaves the caller's list sorted: the result is the
  pair of the returned string and the list object's contents after the call. \<open>self\<close> is
  a parameter of the method that its body never mentions.
\<close>

definition generate_comparison_report ::
  "(real \<Rightarrow> pystr) \<Rightarrow> date \<Rightarrow> LLMAnalyzer \<Rightarrow> ScoreRecord list
     \<Rightarrow> pystr \<times> ScoreRecord list" where
  "generate_comparison_report float_repr now self analyses =
     (let report = [];
          report = report @ [title_line];
          report = report @ [date_line now];
          analyses = list_sort_reverse (\<lambda>x. num_val (total_score x)) analyses;
          report = report @ [results_heading];
          report = report @ [table_head];
          report = report @ [table_rule];
          report = foldl (\<lambda>report analysis. report @ [table_row float_repr analysis])
                     report analyses;
          report = report @ [details_heading];
          report = foldl (\<lambda>report analysis.
                       (let report = report @ [ascii ''### '' @ model analysis @ [10]];
                            report = foldl (\<lambda>report item. report @ [metric_line item])
                                       report (metrics analysis)
                        in report @ [[]]))
                     report analyses
      in (join_nl report, analyses))"

section \<open>Predicates used to state the properties\<close>

text \<open>The two qualifying conditions of \<open>calculate_prompt_adherence\<close>.\<close>

definition in_word_range :: "int \<Rightarrow> int \<Rightarrow> int \<Rightarrow> bool" where
  "in_word_range min_words max_words wc = (min_words \<le> wc \<and> wc \<le> max_words)"

definition has_all_markers :: "pystr \<Rightarrow> bool" where
  "has_all_markers s =
     (str_contains s (ascii ''1.'') \<and> str_contains s (ascii ''2.'') \<and>
      str_contains s (ascii ''3.''))"

text \<open>
  The five metric names, the fixed weights as the specification lists them, and the
  weighted sum of a record's metrics under these weights.
\<close>

definition metric_keys :: "pystr list" where
  "metric_keys = [ascii ''faithfulness'', ascii ''coverage'', ascii ''prompt_adherence'',
     ascii ''coherence'', ascii ''compression'']"

definition fixed_weight :: "pystr \<Rightarrow> real" where
  "fixed_weight k =
     (if k = ascii ''faithfulness'' then 30 / 100
      else if k = ascii ''coverage'' then 25 / 100
      else if k = ascii ''prompt_adherence'' then 20 / 100
      else if k = ascii ''coherence'' then 15 / 100
      else if k = ascii ''compression'' then 10 / 100
      else 0)"

definition metric_value :: "ScoreRecord \<Rightarrow> pystr \<Rightarrow> real" where
  "metric_value r k = (case map_of (metrics r) k of None \<Rightarrow> 0 | Some v \<Rightarrow> num_val v)"

definition weighted_total :: "ScoreRecord \<Rightarrow> real" where
  "weighted_total r = (\<Sum>k\<leftarrow>metric_keys. metric_value r k * fixed_weight k)"

text \<open>
  The order the report is specified to use: \<open>ys\<close> is a stable descending sort of
  \<open>xs\<close> by \<open>total_score\<close> when it holds the same records, in non-increasing score
  order, and records of equal score keep their relative order.
\<close>

definition score :: "ScoreRecord \<Rightarrow> real" where
  "score r = num_val (total_score r)"

definition stable_descending :: "ScoreRecord list \<Rightarrow> ScoreRecord list \<Rightarrow> bool" where
  "stable_descending xs ys =
     (mset ys = mset xs \<and> sorted_wrt (\<lambda>a b. score b \<le> score a) ys
      \<and> (\<forall>k. filter (\<lambda>r. score r = k) ys = filter (\<lambda>r. score r = k) xs))"

text \<open>
  The layout the report is specified to have for records in a given order, spelled out
  line by line: the title, the date line and the table heading; one table row per
  record, whose cells model, total score and word count are separated by \<open>" | "\<close>
  between \<open>"| "\<close> and \<open>" |"\<close>; the heading of the details; then per record a
  subsection heading with the model, one bullet line per metric with its name and its
  value to one decimal place, and an empty line.
\<close>

fun join_cells :: "pystr list \<Rightarrow> pystr" where
  "join_cells [] = []"
| "join_cells [c] = c"
| "join_cells (c # cs) = c @ ascii '' | '' @ join_cells cs"

definition layout_row :: "(real \<Rightarrow> pystr) \<Rightarrow> ScoreRecord \<Rightarrow> pystr" where
  "layout_row float_repr r =
     ascii ''| '' @
     join_cells [model r, py_str float_repr (total_score r), str_int (word_count r)] @
     ascii '' |''"

definition layout_metric :: "pystr \<Rightarrow> pynum \<Rightarrow> pystr" where
  "layout_metric name v = ascii ''- **'' @ name @ ascii ''**: '' @ format_1f v"

definition layout_section :: "ScoreRecord \<Rightarrow> pystr list" where
  "layout_section r =
     (ascii ''### '' @ model r @ [10]) #
     map (\<lambda>(name, v). layout_metric name v) (metrics r) @ [[]]"

definition report_layout :: "(real \<Rightarrow> pystr) \<Rightarrow> date \<Rightarrow> ScoreRecord list \<Rightarrow> pystr" where
  "report_layout float_repr now ys =
     join_nl ([title_line, date_line now, results_heading, table_head, table_rule]
              @ map (layout_row float_repr) ys
              @ [details_heading]
              @ concat (map layout_section ys))"

text \<open>
  What "to one decimal place" means for a printed number: an optional minus sign
  (present exactly for a negative value), a non-empty run of decimal digits, a point
  and exactly one more digit, the number read back being within 0.05 of the magnitude
  of the value.
\<close>

definition digits_value :: "pystr \<Rightarrow> nat" where
  "digits_value ds = foldl (\<lambda>acc c. 10 * acc + (c - 48)) 0 ds"

definition one_decimal_of :: "real \<Rightarrow> pystr \<Rightarrow> bool" where
  "one_decimal_of x s =
     (\<exists>ip d. s = (if x < 0 then [45] else []) @ ip @ [46, 48 + d]
        \<and> ip \<noteq> [] \<and> (\<forall>c \<in> set ip. 48 \<le> c \<and> c \<le> 57) \<and> d < 10
        \<and> \<bar>real (digits_value ip) + real d / 10 - \<bar>x\<bar>\<bar> \<le> 1 / 20)"

text \<open>Two records with the totals 80.0 and 92.5, used as concrete inputs.\<close>

definition record_80 :: ScoreRecord where
  "record_80 = \<lparr>model = ascii ''A'', word_count = 120,
     metrics = [(ascii ''faithfulness'', PInt 100), (ascii ''coverage'', PFloat (57 / 4))],
     total_score = PFloat 80\<rparr>"

definition record_92_5 :: ScoreRecord where
  "record_92_5 = \<lparr>model = ascii ''B'', word_count = 130,
     metrics = [(ascii ''faithfulness'', PInt 100), (ascii ''coverage'', PFloat 50)],
     total_score = PFloat (185 / 2)\<rparr>"

section \<open>Properties\<close>

subsection \<open>Substring test\<close>

lemma startswith_iff: "startswith s p \<longleftrightarrow> (\<exists>suf. s = p @ suf)"
  by (induction s p rule: startswith.induct) auto

text \<open>\<open>str_contains\<close> is the contiguous-occurrence test of Python's \<open>in\<close>.\<close>

lemma str_contains_iff: "str_contains s needle \<longleftrightarrow> (\<exists>pre suf. s = pre @ needle @ suf)"
proof (induction s)
  case Nil
  then show ?case by auto
next
  case (Cons c cs)
  show ?case
  proof
    assume "str_contains (c # cs) needle"
    then consider "startswith (c # cs) needle" | "str_contains cs needle" by auto
    then show "\<exists>pre suf. c # cs = pre @ needle @ suf"
    proof cases
      case 1
      then obtain suf where "c # cs = needle @ suf" by (auto simp: startswith_iff)
      then have "c # cs = [] @ needle @ suf" by simp
      then show ?thesis by blast
    next
      case 2
      then obtain pre suf where "cs = pre @ needle @ suf" using Cons.IH by blast
      then have "c # cs = (c # pre) @ needle @ suf" by simp
      then show ?thesis by blast
    qed
  next
    assume "\<exists>pre suf. c # cs = pre @ needle @ suf"
    then obtain pre suf where eq: "c # cs = pre @ needle @ suf" by blast
    show "str_contains (c # cs) needle"
    proof (cases pre)
      case Nil
      then have "startswith (c # cs) needle" using eq by (auto simp: startswith_iff)
      then show ?thesis by simp
    next
      case (Cons p ps)
      then have "cs = ps @ needle @ suf" using eq by simp
      then have "str_contains cs needle" using Cons.IH by blast
      then show ?thesis by simp
    qed
  qed
qed

subsection \<open>Prompt adherence\<close>

lemma prompt_adherence_parts:
  "calculate_prompt_adherence s wc lo hi =
     (if in_word_range lo hi wc then 40 else 0) + (if has_all_markers s then 30 else 15) + 30"
  by (simp add: calculate_prompt_adherence_def in_word_range_def has_all_markers_def Let_def)

text \<open>
  Claim C3, as the code has it. \<open>calculate_prompt_adherence\<close> is the sum of three
  independent parts: 40 if the word count lies in \<open>[min_words, max_words]\<close> and 0
  otherwise; 30 if the markers "1.", "2." and "3." all occur in the summary and 15
  otherwise; and a fixed 30. Its value lies between 45 and 100 for every input. With the
  default bounds, a summary with all three markers and word count 120 scores 100, and a
  summary lacking a marker with word count 50 scores 45 (the fixed 30 is always added,
  so the stated minimum 15 is never returned).
\<close>

theorem prompt_adherence_decomposition:
  "calculate_prompt_adherence s wc lo hi =
     (if in_word_range lo hi wc then 40 else 0) + (if has_all_markers s then 30 else 15) + 30
   \<and> 45 \<le> calculate_prompt_adherence s wc lo hi
   \<and> calculate_prompt_adherence s wc lo hi \<le> 100
   \<and> (has_all_markers s \<longrightarrow> calculate_prompt_adherence_default s 120 = 100)
   \<and> (\<not> has_all_markers s \<longrightarrow> calculate_prompt_adherence_default s 50 = 45)"
  by (simp add: prompt_adherence_parts calculate_prompt_adherence_default_def in_word_range_def)

theorem prompt_adherence_decomposition_witness:
  "has_all_markers (ascii ''1. a 2. b 3. c'')
   \<and> calculate_prompt_adherence_default (ascii ''1. a 2. b 3. c'') 120 = 100
   \<and> \<not> has_all_markers (ascii ''plain text'')
   \<and> calculate_prompt_adherence_default (ascii ''plain text'') 50 = 45"
proof -
  have a: "has_all_markers (ascii ''1. a 2. b 3. c'')"
    by (simp add: has_all_markers_def ascii_def)
  have b: "\<not> has_all_markers (ascii ''plain text'')"
    by (simp add: has_all_markers_def ascii_def)
  show ?thesis
    using a b prompt_adherence_decomposition [of "ascii ''1. a 2. b 3. c''" 120 100 150]
      prompt_adherence_decomposition [of "ascii ''plain text''" 50 100 150]
    by blast
qed

text \<open>
  The claim as stated (minimum 15; 15 at word count 50 without markers) fails: the
  summary "plain text" with word count 50 scores 0 + 15 + 30 = 45.
\<close>

theorem prompt_adherence_minimum_counterexample:
  "calculate_prompt_adherence_default (ascii ''plain text'') 50 = 45
   \<and> calculate_prompt_adherence_default (ascii ''plain text'') 50 \<noteq> 15"
  by (simp add: calculate_prompt_adherence_default_def calculate_prompt_adherence_def ascii_def)

text \<open>
  Claim C9. \<open>calculate_prompt_adherence\<close> is monotonic in its qualifying conditions:
  when the word count enters \<open>[min_words, max_words]\<close> while the marker condition is
  unchanged, or when all three markers become present while the word-count condition is
  unchanged, the score does not decrease (the third part is the same constant on both
  sides).
\<close>

theorem prompt_adherence_monotone:
  "(\<not> in_word_range lo hi wc \<and> in_word_range lo hi wc' \<and> has_all_markers s = has_all_markers s'
      \<longrightarrow> calculate_prompt_adherence s wc lo hi \<le> calculate_prompt_adherence s' wc' lo hi)
   \<and> (\<not> has_all_markers s \<and> has_all_markers s' \<and> in_word_range lo hi wc = in_word_range lo hi wc'
      \<longrightarrow> calculate_prompt_adherence s wc lo hi \<le> calculate_prompt_adherence s' wc' lo hi)"
  by (simp add: prompt_adherence_parts)

theorem prompt_adherence_monotone_witness:
  "\<not> in_word_range 100 150 50 \<and> in_word_range 100 150 120
   \<and> calculate_prompt_adherence (ascii ''plain text'') 50 100 150
       \<le> calculate_prompt_adherence (ascii ''plain text'') 120 100 150
   \<and> \<not> has_all_markers (ascii ''plain text'') \<and> has_all_markers (ascii ''1. a 2. b 3. c'')
   \<and> calculate_prompt_adherence (ascii ''plain text'') 50 100 150
       \<le> calculate_prompt_adherence (ascii ''1. a 2. b 3. c'') 50 100 150"
proof -
  have r: "\<not> in_word_range 100 150 50" "in_word_range 100 150 120"
    by (simp_all add: in_word_range_def)
  have m: "\<not> has_all_markers (ascii ''plain text'')" "has_all_markers (ascii ''1. a 2. b 3. c'')"
    by (simp_all add: has_all_markers_def ascii_def)
  show ?thesis
    using r m
      prompt_adherence_monotone [of 100 150 50 120 "ascii ''plain text''" "ascii ''plain text''"]
      prompt_adherence_monotone [of 100 150 50 50 "ascii ''plain text''" "ascii ''1. a 2. b 3. c''"]
    by blast
qed

subsection \<open>Compression ratio\<close>

text \<open>
  Claim C5, as the code has it. For all integers, \<open>calculate_compression_ratio\<close>
  returns \<open>source_words / summary_words\<close> when \<open>summary_words\<close> is positive and 0
  whenever \<open>summary_words \<le> 0\<close>; it never raises a division error. In particular
  \<open>calculate_compression_ratio(4200, 0) = 0\<close> and
  \<open>calculate_compression_ratio(4200, 300) = 14.0\<close>.
\<close>

theorem compression_ratio_guard:
  "(0 < summary_words \<longrightarrow>
      calculate_compression_ratio source_words summary_words =
        Inr (PFloat (of_int source_words / of_int summary_words)))
   \<and> (summary_words \<le> 0 \<longrightarrow>
      calculate_compression_ratio source_words summary_words = Inr (PInt 0))
   \<and> calculate_compression_ratio source_words summary_words \<noteq> Inl ZeroDivisionError
   \<and> calculate_compression_ratio 4200 0 = Inr (PInt 0)
   \<and> calculate_compression_ratio 4200 300 = Inr (PFloat 14)"
  by (simp add: calculate_compression_ratio_def py_truediv_def)

theorem compression_ratio_guard_witness:
  "(0::int) < 300 \<and> calculate_compression_ratio 4200 300 = Inr (PFloat (4200 / 300))
   \<and> (-300::int) \<le> 0 \<and> calculate_compression_ratio 4200 (-300) = Inr (PInt 0)"
  using compression_ratio_guard [of 300 4200] compression_ratio_guard [of "-300" 4200]
  by simp

text \<open>
  The claim as stated (the quotient for every non-zero \<open>summary_words\<close>) fails for a
  negative divisor: the quotient \<open>4200 / -300\<close> is \<open>-14.0\<close>, the function returns 0.
\<close>

theorem compression_ratio_negative_counterexample:
  "calculate_compression_ratio 4200 (-300) = Inr (PInt 0)
   \<and> py_truediv 4200 (-300) = Inr (PFloat (-14))
   \<and> \<not> py_eq (PInt 0) (PFloat (-14))"
  by (simp add: calculate_compression_ratio_def py_truediv_def py_eq_def)

subsection \<open>Coverage\<close>

lemma sum_list_ones: "sum_list (map (\<lambda>x. (1::int)) xs) = int (length xs)"
  by (induction xs) auto

lemma coverage_value:
  "calculate_coverage lower s ks =
     (if ks = [] then Inr (PInt 0)
      else Inr (PFloat (real (length (filter (\<lambda>e. str_contains (lower s) (lower e)) ks))
                         / real (length ks) * 100)))"
  by (simp add: calculate_coverage_def sum_list_ones py_truediv_def Let_def)

text \<open>
  Claim C4. For every summary \<open>s\<close> and list \<open>ks\<close>, \<open>calculate_coverage\<close> returns
  the fraction of the elements of \<open>ks\<close> whose lower-cased form is a substring of the
  lower-cased \<open>s\<close>, times 100, and returns 0 without raising when \<open>ks\<close> is empty.
  Hence for a non-empty \<open>ks\<close> it returns 0 when no element occurs and 100 when all
  do. (\<open>str_contains_iff\<close> shows that \<open>str_contains\<close> is the substring relation.)
\<close>

theorem coverage_fraction:
  "calculate_coverage lower s ks =
     (if ks = [] then Inr (PInt 0)
      else Inr (PFloat (real (length (filter (\<lambda>e. str_contains (lower s) (lower e)) ks))
                         / real (length ks) * 100)))
   \<and> (ks \<noteq> [] \<and> (\<forall>e \<in> set ks. \<not> str_contains (lower s) (lower e))
        \<longrightarrow> calculate_coverage lower s ks = Inr (PFloat 0))
   \<and> (ks \<noteq> [] \<and> (\<forall>e \<in> set ks. str_contains (lower s) (lower e))
        \<longrightarrow> calculate_coverage lower s ks = Inr (PFloat 100))"
proof (intro conjI impI)
  show "calculate_coverage lower s ks =
     (if ks = [] then Inr (PInt 0)
      else Inr (PFloat (real (length (filter (\<lambda>e. str_contains (lower s) (lower e)) ks))
                         / real (length ks) * 100)))"
    by (rule coverage_value)
next
  assume h: "ks \<noteq> [] \<and> (\<forall>e \<in> set ks. \<not> str_contains (lower s) (lower e))"
  then have "filter (\<lambda>e. str_contains (lower s) (lower e)) ks = []"
    by (simp add: filter_empty_conv)
  then show "calculate_coverage lower s ks = Inr (PFloat 0)"
    using h by (simp add: coverage_value)
next
  assume h: "ks \<noteq> [] \<and> (\<forall>e \<in> set ks. str_contains (lower s) (lower e))"
  then have "filter (\<lambda>e. str_contains (lower s) (lower e)) ks = ks"
    by simp
  then show "calculate_coverage lower s ks = Inr (PFloat 100)"
    using h by (simp add: coverage_value)
qed

theorem coverage_fraction_witness:
  "str_contains (ascii_lower (ascii ''Grok and GigaChat'')) (ascii_lower (ascii ''GROK''))
   \<and> str_contains (ascii_lower (ascii ''Grok and GigaChat'')) (ascii_lower (ascii ''gigachat''))
   \<and> calculate_coverage ascii_lower (ascii ''Grok and GigaChat'')
        [ascii ''GROK'', ascii ''gigachat''] = Inr (PFloat 100)
   \<and> \<not> str_contains (ascii_lower (ascii ''Grok and GigaChat'')) (ascii_lower (ascii ''Cotype''))
   \<and> calculate_coverage ascii_lower (ascii ''Grok and GigaChat'') [ascii ''Cotype'']
        = Inr (PFloat 0)"
proof -
  have a: "str_contains (ascii_lower (ascii ''Grok and GigaChat'')) (ascii_lower (ascii ''GROK''))"
    "str_contains (ascii_lower (ascii ''Grok and GigaChat'')) (ascii_lower (ascii ''gigachat''))"
    by (simp_all add: ascii_def ascii_lower_def lower_cp_def)
  have b: "\<not> str_contains (ascii_lower (ascii ''Grok and GigaChat''))
                (ascii_lower (ascii ''Cotype''))"
    by (simp add: ascii_def ascii_lower_def lower_cp_def)
  have "calculate_coverage ascii_lower (ascii ''Grok and GigaChat'')
        [ascii ''GROK'', ascii ''gigachat''] = Inr (PFloat 100)"
    using a coverage_fraction [of ascii_lower "ascii ''Grok and GigaChat''"
        "[ascii ''GROK'', ascii ''gigachat'']"]
    by simp
  moreover have "calculate_coverage ascii_lower (ascii ''Grok and GigaChat'') [ascii ''Cotype'']
        = Inr (PFloat 0)"
    using b coverage_fraction [of ascii_lower "ascii ''Grok and GigaChat''" "[ascii ''Cotype'']"]
    by simp
  ultimately show ?thesis using a b by blast
qed

subsection \<open>\<open>analyze_model\<close>\<close>

text \<open>
  With the weight table of \<open>__init__\<close>, \<open>analyze_model\<close> always returns a record:
  neither division raises and every metric key has a weight.
\<close>

lemma key_elements_length: "length key_elements = 14"
  by (simp add: key_elements_def)

lemma py_mul_float: "py_mul m (PFloat w) = PFloat (num_val m * w)"
  by (cases m) simp_all

lemma py_add_float: "py_add acc (PFloat y) = PFloat (num_val acc + y)"
  by (cases acc) simp_all

lemma coverage_key_elements:
  "\<exists>c. calculate_coverage lower s key_elements = Inr (PFloat c)"
proof -
  have "key_elements \<noteq> []" using key_elements_length by auto
  then show ?thesis by (simp add: coverage_value)
qed

lemma compression_total: "\<exists>v. calculate_compression_ratio a b = Inr v"
  by (simp add: calculate_compression_ratio_def py_truediv_def)

lemma key_neq:
  "ascii ''coverage'' \<noteq> ascii ''faithfulness''"
  "ascii ''prompt_adherence'' \<noteq> ascii ''faithfulness''"
  "ascii ''prompt_adherence'' \<noteq> ascii ''coverage''"
  "ascii ''coherence'' \<noteq> ascii ''faithfulness''"
  "ascii ''coherence'' \<noteq> ascii ''coverage''"
  "ascii ''coherence'' \<noteq> ascii ''prompt_adherence''"
  "ascii ''compression'' \<noteq> ascii ''faithfulness''"
  "ascii ''compression'' \<noteq> ascii ''coverage''"
  "ascii ''compression'' \<noteq> ascii ''prompt_adherence''"
  "ascii ''compression'' \<noteq> ascii ''coherence''"
  by (simp_all add: ascii_def)

lemma key_neq_sym:
  "ascii ''faithfulness'' \<noteq> ascii ''coverage''"
  "ascii ''faithfulness'' \<noteq> ascii ''prompt_adherence''"
  "ascii ''coverage'' \<noteq> ascii ''prompt_adherence''"
  "ascii ''faithfulness'' \<noteq> ascii ''coherence''"
  "ascii ''coverage'' \<noteq> ascii ''coherence''"
  "ascii ''prompt_adherence'' \<noteq> ascii ''coherence''"
  "ascii ''faithfulness'' \<noteq> ascii ''compression''"
  "ascii ''coverage'' \<noteq> ascii ''compression''"
  "ascii ''prompt_adherence'' \<noteq> ascii ''compression''"
  "ascii ''coherence'' \<noteq> ascii ''compression''"
  by (simp_all add: ascii_def)

lemma analyze_model_result:
  assumes cov: "calculate_coverage lower summary key_elements = Inr coverage"
    and comp: "calculate_compression_ratio
                 (dict_get source_stats (ascii ''word_count'') 4200)
                 (int (length (split_ws summary))) = Inr compression"
  shows "analyze_model lower init model_name summary source_stats =
     Inr \<lparr>model = model_name, word_count = int (length (split_ws summary)),
          metrics = [(ascii ''faithfulness'', PInt 100),
                     (ascii ''coverage'', coverage),
                     (ascii ''prompt_adherence'',
                        PInt (calculate_prompt_adherence_default summary
                                (int (length (split_ws summary))))),
                     (ascii ''coherence'', PInt (calculate_coherence summary)),
                     (ascii ''compression'', compression)],
          total_score = py_round2 (PFloat (
             100 * (30 / 100) + num_val coverage * (25 / 100)
             + real_of_int (calculate_prompt_adherence_default summary
                                (int (length (split_ws summary)))) * (20 / 100)
             + real_of_int (calculate_coherence summary) * (15 / 100)
             + num_val compression * (10 / 100)))\<rparr>"
  unfolding analyze_model_def Let_def cov comp init_def
  by (simp add: key_neq key_neq_sym py_mul_float py_add_float)


lemma analyze_model_returns:
  "\<exists>coverage compression.
     calculate_coverage lower summary key_elements = Inr coverage
     \<and> calculate_compression_ratio (dict_get source_stats (ascii ''word_count'') 4200)
           (int (length (split_ws summary))) = Inr compression
     \<and> analyze_model lower init model_name summary source_stats =
     Inr \<lparr>model = model_name, word_count = int (length (split_ws summary)),
          metrics = [(ascii ''faithfulness'', PInt 100),
                     (ascii ''coverage'', coverage),
                     (ascii ''prompt_adherence'',
                        PInt (calculate_prompt_adherence_default summary
                                (int (length (split_ws summary))))),
                     (ascii ''coherence'', PInt (calculate_coherence summary)),
                     (ascii ''compression'', compression)],
          total_score = py_round2 (PFloat (
             100 * (30 / 100) + num_val coverage * (25 / 100)
             + real_of_int (calculate_prompt_adherence_default summary
                                (int (length (split_ws summary)))) * (20 / 100)
             + real_of_int (calculate_coherence summary) * (15 / 100)
             + num_val compression * (10 / 100)))\<rparr>"
proof -
  obtain c where c: "calculate_coverage lower summary key_elements = Inr (PFloat c)"
    using coverage_key_elements by blast
  obtain v where v: "calculate_compression_ratio
      (dict_get source_stats (ascii ''word_count'') 4200)
      (int (length (split_ws summary))) = Inr v"
    using compression_total by blast
  show ?thesis
    using analyze_model_result [OF c v] c v by blast
qed

text \<open>A run on a concrete summary: 6 words, 3 of the 14 key elements, three sentences.\<close>

lemma coverage_example:
  "calculate_coverage ascii_lower (ascii ''Grok and GigaChat. 36% up. done.'') key_elements
     = Inr (PFloat (150 / 7))"
  by (simp add: calculate_coverage_def key_elements_def ascii_def ascii_lower_def lower_cp_def
      py_truediv_def Let_def)

lemma analyze_model_example:
  "analyze_model ascii_lower init (ascii ''M'') (ascii ''Grok and GigaChat. 36% up. done.'')
     Map.empty
   = Inr \<lparr>model = ascii ''M'', word_count = 6,
          metrics = [(ascii ''faithfulness'', PInt 100),
                     (ascii ''coverage'', PFloat (150 / 7)),
                     (ascii ''prompt_adherence'', PInt 45),
                     (ascii ''coherence'', PInt 80),
                     (ascii ''compression'', PFloat 700)],
          total_score = PFloat (12636 / 100)\<rparr>"
proof -
  have wc: "int (length (split_ws (ascii ''Grok and GigaChat. 36% up. done.''))) = 6"
    by (simp add: split_ws_def ascii_def isspace_def)
  have comp: "calculate_compression_ratio
                 (dict_get Map.empty (ascii ''word_count'') 4200)
                 (int (length (split_ws (ascii ''Grok and GigaChat. 36% up. done.''))))
              = Inr (PFloat 700)"
    unfolding wc by (simp add: calculate_compression_ratio_def py_truediv_def dict_get_def)
  have pa: "calculate_prompt_adherence_default (ascii ''Grok and GigaChat. 36% up. done.'') 6 = 45"
    by (simp add: calculate_prompt_adherence_default_def calculate_prompt_adherence_def ascii_def)
  have coh: "calculate_coherence (ascii ''Grok and GigaChat. 36% up. done.'') = 80"
    by (simp add: calculate_coherence_def ascii_def Let_def)
  show ?thesis
    using analyze_model_result [OF coverage_example comp, of "ascii ''M''"]
    unfolding wc pa coh
    by (simp add: round_half_even_def Let_def)
qed

text \<open>
  Claim C1. For every model name, summary and source statistics, \<open>analyze_model\<close>
  returns a record whose \<open>metrics\<close> have exactly the five keys faithfulness, coverage,
  prompt_adherence, coherence and compression, and whose \<open>total_score\<close> is
  \<open>round(\<dots>, 2)\<close> of the sum over these keys of \<open>metrics[k] * weights[k]\<close> under the
  fixed weights 0.30, 0.25, 0.20, 0.15 and 0.10.
\<close>

theorem analyze_model_total_score:
  "\<exists>r. analyze_model lower init model_name summary source_stats = Inr r
       \<and> map fst (metrics r) = metric_keys
       \<and> distinct metric_keys
       \<and> total_score r = py_round2 (PFloat (weighted_total r))"
proof -
  obtain coverage compression r where
    r: "analyze_model lower init model_name summary source_stats = Inr r"
    and rdef: "r = \<lparr>model = model_name, word_count = int (length (split_ws summary)),
          metrics = [(ascii ''faithfulness'', PInt 100),
                     (ascii ''coverage'', coverage),
                     (ascii ''prompt_adherence'',
                        PInt (calculate_prompt_adherence_default summary
                                (int (length (split_ws summary))))),
                     (ascii ''coherence'', PInt (calculate_coherence summary)),
                     (ascii ''compression'', compression)],
          total_score = py_round2 (PFloat (
             100 * (30 / 100) + num_val coverage * (25 / 100)
             + real_of_int (calculate_prompt_adherence_default summary
                                (int (length (split_ws summary)))) * (20 / 100)
             + real_of_int (calculate_coherence summary) * (15 / 100)
             + num_val compression * (10 / 100)))\<rparr>"
    using analyze_model_returns [of lower summary source_stats model_name] by blast
  have keys: "map fst (metrics r) = metric_keys"
    by (simp add: rdef metric_keys_def)
  have dist: "distinct metric_keys"
    by (simp add: metric_keys_def key_neq key_neq_sym)
  have wt: "weighted_total r =
             100 * (30 / 100) + num_val coverage * (25 / 100)
             + real_of_int (calculate_prompt_adherence_default summary
                                (int (length (split_ws summary)))) * (20 / 100)
             + real_of_int (calculate_coherence summary) * (15 / 100)
             + num_val compression * (10 / 100)"
    by (simp add: weighted_total_def metric_keys_def metric_value_def fixed_weight_def rdef
        key_neq key_neq_sym)
  have "total_score r = py_round2 (PFloat (weighted_total r))"
    unfolding wt by (simp add: rdef)
  with r keys dist show ?thesis by blast
qed

text \<open>
  Claim C2. For every summary and source statistics the record returned by
  \<open>analyze_model\<close> has \<open>metrics['faithfulness']\<close> equal to the constant 100, whatever
  the summary is. It is not the value of \<open>calculate_faithfulness\<close>: that function,
  which \<open>analyze_model\<close> never calls and for which it has no list of facts, returns 0
  on the same summary with an empty list of facts.
\<close>

theorem analyze_model_faithfulness_constant:
  "(\<exists>r. analyze_model lower init model_name summary source_stats = Inr r
        \<and> dict_getitem (metrics r) (ascii ''faithfulness'') = Inr (PInt 100))
   \<and> calculate_faithfulness lower summary [] = Inr (PInt 0)"
proof -
  obtain coverage compression r where
    r: "analyze_model lower init model_name summary source_stats = Inr r"
    and rdef: "metrics r = [(ascii ''faithfulness'', PInt 100),
                     (ascii ''coverage'', coverage),
                     (ascii ''prompt_adherence'',
                        PInt (calculate_prompt_adherence_default summary
                                (int (length (split_ws summary))))),
                     (ascii ''coherence'', PInt (calculate_coherence summary)),
                     (ascii ''compression'', compression)]"
    using analyze_model_returns [of lower summary source_stats model_name] by fastforce
  have "dict_getitem (metrics r) (ascii ''faithfulness'') = Inr (PInt 100)"
    by (simp add: rdef)
  moreover have "calculate_faithfulness lower summary [] = Inr (PInt 0)"
    by (simp add: calculate_faithfulness_def)
  ultimately show ?thesis using r by blast
qed

text \<open>
  Claim C10. When \<open>source_stats\<close> has no key \<open>word_count\<close>, \<open>analyze_model\<close> does not
  fail: it uses 4200 as the source word count, so the compression metric is
  \<open>calculate_compression_ratio(4200, word count of the summary)\<close>. The coverage metric
  is computed against the built-in list of 14 key elements, not against any list the
  caller supplies.
\<close>

theorem analyze_model_default_word_count:
  assumes "source_stats (ascii ''word_count'') = None"
  shows "\<exists>r. analyze_model lower init model_name summary source_stats = Inr r
       \<and> word_count r = int (length (split_ws summary))
       \<and> Inr (the (map_of (metrics r) (ascii ''compression'')))
            = calculate_compression_ratio 4200 (word_count r)
       \<and> Inr (the (map_of (metrics r) (ascii ''coverage'')))
            = calculate_coverage lower summary key_elements
       \<and> length key_elements = 14"
proof -
  have dflt: "dict_get source_stats (ascii ''word_count'') 4200 = 4200"
    using assms by (simp add: dict_get_def)
  obtain coverage compression r where
    cov: "calculate_coverage lower summary key_elements = Inr coverage"
    and comp: "calculate_compression_ratio 4200 (int (length (split_ws summary))) = Inr compression"
    and r: "analyze_model lower init model_name summary source_stats = Inr r"
    and rdef: "r = \<lparr>model = model_name, word_count = int (length (split_ws summary)),
          metrics = [(ascii ''faithfulness'', PInt 100),
                     (ascii ''coverage'', coverage),
                     (ascii ''prompt_adherence'',
                        PInt (calculate_prompt_adherence_default summary
                                (int (length (split_ws summary))))),
                     (ascii ''coherence'', PInt (calculate_coherence summary)),
                     (ascii ''compression'', compression)],
          total_score = py_round2 (PFloat (
             100 * (30 / 100) + num_val coverage * (25 / 100)
             + real_of_int (calculate_prompt_adherence_default summary
                                (int (length (split_ws summary)))) * (20 / 100)
             + real_of_int (calculate_coherence summary) * (15 / 100)
             + num_val compression * (10 / 100)))\<rparr>"
    using analyze_model_returns [of lower summary source_stats model_name] dflt by auto
  have "word_count r = int (length (split_ws summary))" by (simp add: rdef)
  moreover have "Inr (the (map_of (metrics r) (ascii ''compression'')))
            = calculate_compression_ratio 4200 (word_count r)"
    by (simp add: rdef comp key_neq key_neq_sym)
  moreover have "Inr (the (map_of (metrics r) (ascii ''coverage'')))
            = calculate_coverage lower summary key_elements"
    by (simp add: rdef cov key_neq key_neq_sym)
  ultimately show ?thesis using r key_elements_length by blast
qed

theorem analyze_model_default_word_count_witness:
  "(Map.empty :: pystr \<rightharpoonup> int) (ascii ''word_count'') = None
   \<and> (\<exists>r. analyze_model ascii_lower init (ascii ''M'') (ascii ''Grok. 36% up. done'') Map.empty
            = Inr r
        \<and> word_count r = 4
        \<and> Inr (the (map_of (metrics r) (ascii ''compression'')))
            = calculate_compression_ratio 4200 4)"
proof -
  have wc: "int (length (split_ws (ascii ''Grok. 36% up. done''))) = 4"
    by (simp add: split_ws_def ascii_def isspace_def)
  have h: "(Map.empty :: pystr \<rightharpoonup> int) (ascii ''word_count'') = None" by simp
  show ?thesis
    using analyze_model_default_word_count [OF h, of ascii_lower "ascii ''M''"
        "ascii ''Grok. 36% up. done''"] wc
    by auto
qed

subsection \<open>The comparison report\<close>

text \<open>
  The two loops append one line per element, the sort is a stable descending sort, and
  the method returns the layout of the sorted list together with that list.
\<close>

lemma str_nat_digit: "n < 10 \<Longrightarrow> str_nat n = [48 + n]"
  by (simp add: str_nat.simps)

lemma foldl_append_each: "foldl (\<lambda>acc x. acc @ [f x]) acc xs = acc @ map f xs"
  by (induction xs arbitrary: acc) auto

lemma foldl_append_sections:
  "foldl (\<lambda>acc x. acc @ g x) acc xs = acc @ concat (map g xs)"
  by (induction xs arbitrary: acc) auto

lemma sort_reverse_mset: "mset (list_sort_reverse key xs) = mset xs"
  by (simp add: list_sort_reverse_def)

lemma sort_reverse_sorted: "sorted_wrt (\<lambda>a b. key b \<le> key a) (list_sort_reverse key xs)"
proof -
  have "sorted (map (\<lambda>x. - key x) (sort_key (\<lambda>x. - key x) xs))"
    by (rule sorted_sort_key)
  then show ?thesis by (simp add: list_sort_reverse_def sorted_map)
qed

lemma sort_reverse_stable:
  "filter (\<lambda>r. key r = k) (list_sort_reverse key xs) = filter (\<lambda>r. key r = k) xs"
proof -
  have "filter (\<lambda>r. - key r = - k) (sort_key (\<lambda>x. - key x) xs) = filter (\<lambda>r. - key r = - k) xs"
    by (rule sort_key_stable)
  then show ?thesis by (simp add: list_sort_reverse_def)
qed

lemma sort_reverse_id:
  "sorted_wrt (\<lambda>a b. key b \<le> key a) xs \<Longrightarrow> list_sort_reverse key xs = xs"
  by (simp add: list_sort_reverse_def sort_key_id_if_sorted sorted_map)

lemma sort_reverse_idem:
  "list_sort_reverse key (list_sort_reverse key xs) = list_sort_reverse key xs"
  by (rule sort_reverse_id) (rule sort_reverse_sorted)

lemma report_closed_form:
  "generate_comparison_report float_repr now self xs =
     (join_nl ([title_line, date_line now, results_heading, table_head, table_rule]
               @ map (table_row float_repr) (list_sort_reverse score xs)
               @ [details_heading]
               @ concat (map (\<lambda>analysis.
                    (ascii ''### '' @ model analysis @ [10]) #
                    map metric_line (metrics analysis) @ [[]])
                  (list_sort_reverse score xs))),
      list_sort_reverse score xs)"
proof -
  have s: "(\<lambda>x. num_val (total_score x)) = score" by (simp add: score_def fun_eq_iff)
  show ?thesis
    unfolding generate_comparison_report_def s
    by (simp add: Let_def foldl_append_each foldl_append_sections)
qed

lemma sort_reverse_stable_descending: "stable_descending xs (list_sort_reverse score xs)"
  by (simp add: stable_descending_def sort_reverse_mset sort_reverse_sorted sort_reverse_stable)

lemma scores: "score record_80 = 80" "score record_92_5 = 185 / 2"
  by (simp_all add: score_def record_80_def record_92_5_def)

text \<open>The lines the code builds are the lines of the specified layout.\<close>

lemma table_row_layout: "table_row float_repr r = layout_row float_repr r"
  by (simp add: table_row_def layout_row_def)

lemma metric_line_layout: "metric_line item = (\<lambda>(name, v). layout_metric name v) item"
  by (simp add: metric_line_def layout_metric_def split: prod.splits)

lemma report_value:
  "generate_comparison_report float_repr now self xs =
     (report_layout float_repr now (list_sort_reverse score xs), list_sort_reverse score xs)"
proof -
  have m: "metric_line = (\<lambda>(name, v). layout_metric name v)"
    using metric_line_layout by blast
  have r: "table_row float_repr = layout_row float_repr"
    using table_row_layout by blast
  have sec: "layout_section = (\<lambda>analysis.
                    (ascii ''### '' @ model analysis @ [10]) #
                    map (\<lambda>(name, v). layout_metric name v) (metrics analysis) @ [[]])"
    by (simp add: layout_section_def fun_eq_iff)
  show ?thesis
    unfolding report_closed_form report_layout_def m r sec ..
qed

text \<open>\<open>format_1f\<close> prints to one decimal place.\<close>

lemma round_half_even_bound: "\<bar>real_of_int (round_half_even x) - x\<bar> \<le> 1 / 2"
proof -
  have "real_of_int \<lfloor>x\<rfloor> \<le> x" "x < real_of_int \<lfloor>x\<rfloor> + 1" by linarith+
  then show ?thesis by (auto simp: round_half_even_def Let_def)
qed

lemma round_half_even_nonneg: "0 \<le> x \<Longrightarrow> 0 \<le> round_half_even x"
proof -
  assume "0 \<le> x"
  then have "0 \<le> \<lfloor>x\<rfloor>" by simp
  then show ?thesis by (auto simp: round_half_even_def Let_def)
qed

lemma digits_value_snoc: "digits_value (ds @ [c]) = 10 * digits_value ds + (c - 48)"
  by (simp add: digits_value_def)

lemma digits_value_str_nat: "digits_value (str_nat n) = n"
proof (induction n rule: str_nat.induct)
  case (1 n)
  show ?case
  proof (cases "n < 10")
    case True
    then show ?thesis by (simp add: str_nat_digit digits_value_def)
  next
    case False
    then have "str_nat n = str_nat (n div 10) @ [48 + n mod 10]"
      by (subst str_nat.simps) simp
    then show ?thesis using 1 False by (simp add: digits_value_snoc)
  qed
qed

lemma str_nat_digits: "str_nat n \<noteq> [] \<and> (\<forall>c \<in> set (str_nat n). 48 \<le> c \<and> c \<le> 57)"
proof (induction n rule: str_nat.induct)
  case (1 n)
  show ?case
  proof (cases "n < 10")
    case True
    then show ?thesis by (simp add: str_nat_digit)
  next
    case False
    then have "str_nat n = str_nat (n div 10) @ [48 + n mod 10]"
      by (subst str_nat.simps) simp
    moreover have "n mod 10 \<le> 9" by simp
    ultimately show ?thesis using 1 False by auto
  qed
qed

lemma format_1f_one_decimal: "one_decimal_of (num_val v) (format_1f v)"
proof -
  define x where "x = num_val v"
  define n where "n = nat (round_half_even (\<bar>x\<bar> * 10))"
  have nn: "real n = real_of_int (round_half_even (\<bar>x\<bar> * 10))"
    using round_half_even_nonneg [of "\<bar>x\<bar> * 10"] by (simp add: n_def)
  have "\<bar>real n - \<bar>x\<bar> * 10\<bar> \<le> 1 / 2"
    unfolding nn by (rule round_half_even_bound)
  moreover have "real n = 10 * real (n div 10) + real (n mod 10)"
    by (metis of_nat_add of_nat_mult of_nat_numeral mult_div_mod_eq)
  ultimately have acc: "\<bar>real (n div 10) + real (n mod 10) / 10 - \<bar>x\<bar>\<bar> \<le> 1 / 20"
    by linarith
  have fmt: "format_1f v =
      (if x < 0 then [45] else []) @ str_nat (n div 10) @ [46, 48 + n mod 10]"
    by (simp add: format_1f_def Let_def n_def x_def str_nat_digit)
  have "n mod 10 < 10" by simp
  with fmt acc str_nat_digits [of "n div 10"] digits_value_str_nat [of "n div 10"]
  show ?thesis
    unfolding one_decimal_of_def x_def [symmetric] by metis
qed

lemma sort_two_example:
  assumes "score a = 80" "score b = 185 / 2" "xs = [a, b] \<or> xs = [b, a]"
  shows "list_sort_reverse score xs = [b, a]"
  using assms by (auto simp: list_sort_reverse_def)

text \<open>Lines of the specified layout for the two example records.\<close>

lemma layout_row_example:
  "layout_row repr_2dp record_92_5 = ascii ''| B | 92.5 | 130 |''"
  "layout_row repr_2dp record_80 = ascii ''| A | 80.0 | 120 |''"
  by (simp_all add: layout_row_def record_92_5_def record_80_def py_str_def repr_2dp_def
      round_half_even_def str_int_def str_nat.simps ascii_def Let_def)

lemma layout_section_example:
  "layout_section record_92_5 =
     [ascii ''### B'' @ [10], ascii ''- **faithfulness**: 100.0'',
      ascii ''- **coverage**: 50.0'', []]"
  "layout_section record_80 =
     [ascii ''### A'' @ [10], ascii ''- **faithfulness**: 100.0'',
      ascii ''- **coverage**: 14.2'', []]"
  by (simp_all add: layout_section_def layout_metric_def record_92_5_def record_80_def
      format_1f_def round_half_even_def str_nat.simps ascii_def Let_def)

text \<open>
  Claim C6. \<open>generate_comparison_report\<close> orders the records by a stable descending
  sort on \<open>total_score\<close> (ties keep their original order), emits one table row per
  record in that order with model, total score and word count, then one detail
  subsection per record in the same order with one line per metric, the value
  formatted to one decimal place. Given two records with the totals 80.0 and 92.5, in
  either input order, the record with 92.5 comes first.
\<close>

theorem report_sorted_layout:
  assumes "generate_comparison_report float_repr now self xs = (rep, ys)"
  shows "stable_descending xs ys
     \<and> rep = report_layout float_repr now ys
     \<and> (\<forall>a b. score a = 80 \<and> score b = 185 / 2 \<and> (xs = [a, b] \<or> xs = [b, a])
            \<longrightarrow> ys = [b, a])
     \<and> (\<forall>v. one_decimal_of (num_val v) (format_1f v))"
proof -
  have ys: "ys = list_sort_reverse score xs" and rep: "rep = report_layout float_repr now ys"
    using assms by (auto simp: report_value)
  have "stable_descending xs ys"
    unfolding ys by (rule sort_reverse_stable_descending)
  moreover have "\<forall>a b. score a = 80 \<and> score b = 185 / 2 \<and> (xs = [a, b] \<or> xs = [b, a])
            \<longrightarrow> ys = [b, a]"
    unfolding ys using sort_two_example by blast
  moreover have "\<forall>v. one_decimal_of (num_val v) (format_1f v)"
    using format_1f_one_decimal by blast
  ultimately show ?thesis using rep by blast
qed

theorem report_sorted_layout_witness:
  "generate_comparison_report repr_2dp \<lparr>day = 4, month = 11, year = 2026\<rparr> init
       [record_80, record_92_5]
     = (join_nl [title_line, date_line \<lparr>day = 4, month = 11, year = 2026\<rparr>,
                 results_heading, table_head, table_rule,
                 ascii ''| B | 92.5 | 130 |'',
                 ascii ''| A | 80.0 | 120 |'',
                 details_heading,
                 ascii ''### B'' @ [10],
                 ascii ''- **faithfulness**: 100.0'',
                 ascii ''- **coverage**: 50.0'',
                 [],
                 ascii ''### A'' @ [10],
                 ascii ''- **faithfulness**: 100.0'',
                 ascii ''- **coverage**: 14.2'',
                 []],
        [record_92_5, record_80])
   \<and> score record_80 = 80 \<and> score record_92_5 = 185 / 2"
proof -
  obtain rep ys where
    h: "generate_comparison_report repr_2dp \<lparr>day = 4, month = 11, year = 2026\<rparr> init
          [record_80, record_92_5] = (rep, ys)"
    by (meson surj_pair)
  from report_sorted_layout [OF h] scores
  have ys: "ys = [record_92_5, record_80]"
    and rep: "rep = report_layout repr_2dp \<lparr>day = 4, month = 11, year = 2026\<rparr> ys"
    by blast+
  have "rep = join_nl [title_line, date_line \<lparr>day = 4, month = 11, year = 2026\<rparr>,
                 results_heading, table_head, table_rule,
                 ascii ''| B | 92.5 | 130 |'',
                 ascii ''| A | 80.0 | 120 |'',
                 details_heading,
                 ascii ''### B'' @ [10],
                 ascii ''- **faithfulness**: 100.0'',
                 ascii ''- **coverage**: 50.0'',
                 [],
                 ascii ''### A'' @ [10],
                 ascii ''- **faithfulness**: 100.0'',
                 ascii ''- **coverage**: 14.2'',
                 []]"
    unfolding rep ys report_layout_def
    by (simp only: list.map concat.simps append.simps layout_row_example
        layout_section_example)
  with h ys scores show ?thesis by simp
qed

text \<open>
  Claim C7, as the code has it. The report is determined by the input list and the
  current date (\<open>datetime.now()\<close>, printed as day.month.year): it does not depend on
  the analyzer object, a second call on the list as the first call left it returns the
  same string, and two calls whose date strings agree return the same string.
\<close>

theorem report_determined_by_list_and_date:
  "fst (generate_comparison_report float_repr now self xs)
     = fst (generate_comparison_report float_repr now self' xs)
   \<and> fst (generate_comparison_report float_repr now self
            (snd (generate_comparison_report float_repr now self xs)))
     = fst (generate_comparison_report float_repr now self xs)
   \<and> (strftime_dmY now = strftime_dmY now'
        \<longrightarrow> fst (generate_comparison_report float_repr now self xs)
            = fst (generate_comparison_report float_repr now' self xs))"
  by (simp add: report_closed_form sort_reverse_idem date_line_def)

theorem report_determined_by_list_and_date_witness:
  "strftime_dmY \<lparr>day = 4, month = 11, year = 2026\<rparr>
     = strftime_dmY \<lparr>day = 4, month = 11, year = 2026\<rparr>
   \<and> fst (generate_comparison_report repr_2dp \<lparr>day = 4, month = 11, year = 2026\<rparr> init
            (snd (generate_comparison_report repr_2dp \<lparr>day = 4, month = 11, year = 2026\<rparr>
                    init [record_80, record_92_5])))
     = fst (generate_comparison_report repr_2dp \<lparr>day = 4, month = 11, year = 2026\<rparr> init
              [record_80, record_92_5])"
  using report_determined_by_list_and_date [of repr_2dp "\<lparr>day = 4, month = 11, year = 2026\<rparr>"
      init "[record_80, record_92_5]" init "\<lparr>day = 4, month = 11, year = 2026\<rparr>"]
  by simp

lemma date_line_4: "date_line \<lparr>day = 4, month = 11, year = 2026\<rparr>
   = [1044, 1072, 1090, 1072, 58, 32, 48, 52, 46, 49, 49, 46, 50, 48, 50, 54, 10]"
  by (simp add: date_line_def strftime_dmY_def pad2_def pad4_def str_nat.simps)

lemma date_line_5: "date_line \<lparr>day = 5, month = 11, year = 2026\<rparr>
   = [1044, 1072, 1090, 1072, 58, 32, 48, 53, 46, 49, 49, 46, 50, 48, 50, 54, 10]"
  by (simp add: date_line_def strftime_dmY_def pad2_def pad4_def str_nat.simps)

text \<open>
  The claim as stated (no dependence on anything outside the input) fails: the same
  list rendered on 04.11.2026 and on 05.11.2026 gives two different strings.
\<close>

theorem report_date_counterexample:
  "fst (generate_comparison_report repr_2dp \<lparr>day = 4, month = 11, year = 2026\<rparr> init
          [record_80, record_92_5])
   \<noteq> fst (generate_comparison_report repr_2dp \<lparr>day = 5, month = 11, year = 2026\<rparr> init
          [record_80, record_92_5])"
  by (simp add: report_closed_form date_line_4 date_line_5 title_line_def)

text \<open>
  Claim C8, as the code has it. Neither method reads or writes analyzer state other
  than the weight table (the report ignores the analyzer; \<open>analyze_model\<close> depends on
  it through \<open>metrics_weights\<close> only and, being a function of its arguments, changes
  none of them). \<open>generate_comparison_report\<close> sorts the caller's list in place: after
  the call the list holds the same records in stable descending \<open>total_score\<close> order,
  and it is unchanged exactly when it was already in non-increasing order.
\<close>

theorem report_sorts_list_in_place:
  "snd (generate_comparison_report float_repr now self xs) = list_sort_reverse score xs
   \<and> stable_descending xs (snd (generate_comparison_report float_repr now self xs))
   \<and> (snd (generate_comparison_report float_repr now self xs) = xs
        \<longleftrightarrow> sorted_wrt (\<lambda>a b. score b \<le> score a) xs)
   \<and> generate_comparison_report float_repr now self xs
        = generate_comparison_report float_repr now self' xs
   \<and> (metrics_weights self = metrics_weights self'
        \<longrightarrow> analyze_model lower self model_name summary source_stats
            = analyze_model lower self' model_name summary source_stats)"
proof -
  have "snd (generate_comparison_report float_repr now self xs) = xs
        \<longleftrightarrow> sorted_wrt (\<lambda>a b. score b \<le> score a) xs"
    using sort_reverse_id [of score xs] sort_reverse_sorted [of score xs]
    by (auto simp: report_closed_form)
  moreover have "metrics_weights self = metrics_weights self'
        \<longrightarrow> analyze_model lower self model_name summary source_stats
            = analyze_model lower self' model_name summary source_stats"
  proof
    assume eq: "metrics_weights self = metrics_weights self'"
    show "analyze_model lower self model_name summary source_stats
            = analyze_model lower self' model_name summary source_stats"
      unfolding analyze_model_def eq ..
  qed
  ultimately show ?thesis
    by (simp add: report_closed_form sort_reverse_stable_descending)
qed

theorem report_sorts_list_in_place_witness:
  "metrics_weights init = metrics_weights init
   \<and> sorted_wrt (\<lambda>a b. score b \<le> score a) [record_92_5, record_80]
   \<and> snd (generate_comparison_report repr_2dp \<lparr>day = 4, month = 11, year = 2026\<rparr> init
            [record_92_5, record_80]) = [record_92_5, record_80]"
proof -
  have h: "sorted_wrt (\<lambda>a b. score b \<le> score a) [record_92_5, record_80]"
    by (simp add: scores)
  have "snd (generate_comparison_report repr_2dp \<lparr>day = 4, month = 11, year = 2026\<rparr> init
            [record_92_5, record_80]) = [record_92_5, record_80]"
    using h report_sorts_list_in_place [of repr_2dp "\<lparr>day = 4, month = 11, year = 2026\<rparr>" init
        "[record_92_5, record_80]" init]
    by blast
  with h show ?thesis by blast
qed

text \<open>
  The claim as stated (the list and its element order are unchanged) fails: the list
  \<open>[record_80, record_92_5]\<close> is \<open>[record_92_5, record_80]\<close> after the call.
\<close>

theorem report_reorders_list_counterexample:
  "snd (generate_comparison_report repr_2dp \<lparr>day = 4, month = 11, year = 2026\<rparr> init
          [record_80, record_92_5]) = [record_92_5, record_80]
   \<and> [record_92_5, record_80] \<noteq> [record_80, record_92_5]"
proof
  show "snd (generate_comparison_report repr_2dp \<lparr>day = 4, month = 11, year = 2026\<rparr> init
          [record_80, record_92_5]) = [record_92_5, record_80]"
    by (simp add: report_closed_form list_sort_reverse_def scores)
  show "[record_92_5, record_80] \<noteq> [record_80, record_92_5]"
    by (simp add: record_80_def record_92_5_def)
qed

end
